theory Spec2Isabelle
  imports Main
begin

section \<open>Shared vocabulary\<close>

text \<open>
  The repository holds two variants of the class \<open>Zyphr\<close>:
  \<^item> \<open>src/src/zyphr.ts\<close>, which keeps the whole circuit state (phase and counters) as a JSON
    document under one key of the shared store and updates it in \<open>fireRequest\<close>,
    \<open>recordSuccess\<close> and \<open>recordFailure\<close>;
  \<^item> \<open>src/unnamed/part_000\<close>, which keeps only the phase under the shared key, with a
    time-to-live, and asks it in \<open>isGloballyOpen\<close> before every call (\<open>handleRequest\<close>).

  Both are embedded below. Names shared by the two variants carry the suffix \<open>_g\<close> in the
  second (gate) variant.
\<close>

text \<open>The three phase strings \<open>'CLOSED'\<close>, \<open>'OPEN'\<close> and \<open>'HALF_OPEN'\<close>.\<close>

datatype phase = CLOSED | OPEN | HALF_OPEN

text \<open>
  \<open>interface JobData\<close>; its field \<open>method\<close> is \<open>http_method\<close> here, and payloads and
  axios configurations are opaque texts.
\<close>

record JobData =
  http_method :: string
  url :: string
  data :: "string option"
  config :: "string option"

text \<open>
  Every \<open>throw\<close> of the source is a value of this type: the four messages of the two
  variants, the rejection of a transport call with its reason, the rejection issued by the
  circuit-breaker library itself, and a failed command of the shared store.
\<close>

datatype error =
    CircuitOpen
  | CircuitOpenQueued
  | GloballyOpen
  | GloballyOpenQueued
  | InvalidMethod
  | Downstream string
  | BreakerRejected
  | StoreFailure

type_synonym response = string

subsection \<open>The world around an instance\<close>

text \<open>
  Everything outside the class that a call reads or changes:
  \<^item> \<open>clock\<close>: what \<open>Date.now()\<close> returns;
  \<^item> \<open>redis\<close>: the shared store, with values of type \<open>'s\<close>;
  \<^item> \<open>waiting\<close>: the jobs of the queue that wait, in the order they were added;
  \<^item> \<open>handed\<close>: the jobs that were promoted, that is handed to the worker;
  \<^item> \<open>sent\<close>: the requests that reached the transport (axios), in order;
  \<^item> \<open>endpoint\<close>: how the remote side answers a request at an instant: a failure reason
    or a response body.
\<close>

record 's world =
  clock :: int
  redis :: "string \<rightharpoonup> 's"
  waiting :: "JobData list"
  handed :: "JobData list"
  sent :: "JobData list"
  endpoint :: "int \<Rightarrow> JobData \<Rightarrow> string + response"

text \<open>One call of axios: the request is logged and the remote side answers.\<close>

definition axios_call ::
  "JobData \<Rightarrow> ('s, 'z) world_scheme \<Rightarrow> (error + response) \<times> ('s, 'z) world_scheme"
where
  "axios_call j w =
     ((case endpoint w (clock w) j of
         Inl reason \<Rightarrow> Inl (Downstream reason)
       | Inr body \<Rightarrow> Inr body),
      w\<lparr>sent := sent w @ [j]\<rparr>)"

text \<open>\<open>queue.add\<close> and \<open>queue.getWaiting\<close>.\<close>

definition queue_add :: "JobData \<Rightarrow> ('s, 'z) world_scheme \<Rightarrow> ('s, 'z) world_scheme" where
  "queue_add j w = w\<lparr>waiting := waiting w @ [j]\<rparr>"

definition getWaiting :: "('s, 'z) world_scheme \<Rightarrow> JobData list" where
  "getWaiting w = waiting w"

text \<open>
  Modelled from the spec: \<open>job.promote()\<close> of the queue library, which is not part of the
  repository. Following the durable queue contract (\<open>promote(item)\<close> or equivalent hand-off
  to a worker), a waiting job leaves the waiting list and is handed to the worker; a job
  that is no longer waiting is not handed over again.
\<close>

definition promote :: "JobData \<Rightarrow> ('s, 'z) world_scheme \<Rightarrow> ('s, 'z) world_scheme" where
  "promote j w =
     (if j \<in> set (waiting w)
      then w\<lparr>waiting := remove1 j (waiting w), handed := handed w @ [j]\<rparr>
      else w)"

text \<open>The events of the breaker that the constructors subscribe to.\<close>

datatype breaker_event = EvOpen | EvHalfOpen | EvClose

text \<open>
  The circuit breaker of the library \<open>opossum\<close>, which the class configures and calls, is
  not part of the repository. It is a parameter here: a breaker over states \<open>'b\<close> is
  given by \<open>admits\<close>, which says whether a call at an instant is let through, and
  \<open>settle\<close>, which gives the next state and the events emitted once the action has
  succeeded (\<open>True\<close>) or failed. Nothing else is assumed of it.
\<close>

record 'b breaker =
  admits :: "'b \<Rightarrow> int \<Rightarrow> bool"
  settle :: "'b \<Rightarrow> int \<Rightarrow> bool \<Rightarrow> 'b \<times> breaker_event list"

text \<open>
  Modelled from the spec: \<open>breaker.fire\<close> of that library. Following the public contract
  of the Local Breaker (an attempt is allowed and succeeds, is allowed and fails, or is
  rejected because the breaker is open, and a rejection never reaches the action), a call
  that is let through runs the action once and returns its outcome, and a call that is
  not is rejected without running it.
\<close>

definition fire ::
  "'b breaker \<Rightarrow> 'b \<Rightarrow> int \<Rightarrow> ('w \<Rightarrow> (error + response) \<times> 'w) \<Rightarrow> 'w
     \<Rightarrow> (error + response) \<times> 'b \<times> breaker_event list \<times> 'w"
where
  "fire br b now action w =
     (if admits br b now then
        (case action w of
           (r, w') \<Rightarrow>
             (case settle br b now (\<not> isl r) of (b', evs) \<Rightarrow> (r, b', evs, w')))
      else (Inl BreakerRejected, b, [], w))"

text \<open>
  \<open>processQueue\<close>, the same in both variants, and its loop over the snapshot \<open>jobs\<close>.
\<close>

fun promote_each :: "JobData list \<Rightarrow> ('s, 'z) world_scheme \<Rightarrow> ('s, 'z) world_scheme" where
  "promote_each [] w = w"
| "promote_each (j # js) w = promote_each js (promote j w)"

definition processQueue :: "('s, 'z) world_scheme \<Rightarrow> ('s, 'z) world_scheme" where
  "processQueue w = (let jobs = getWaiting w in promote_each jobs w)"

section \<open>The variant of \<open>src/src/zyphr.ts\<close>\<close>

subsection \<open>Data\<close>

text \<open>
  The object that \<open>getCircuitState\<close> parses from the store: the value under a key is
  the circuit state whose JSON text \<open>setCircuitState\<close> wrote there, and the commands of
  the store are taken to succeed in this variant. \<open>lastFailureTime\<close> is
  \<open>null\<close> or an instant in milliseconds.
\<close>

record CircuitState =
  state :: phase
  failureCount :: int
  successCount :: int
  lastFailureTime :: "int option"

text \<open>
  \<open>interface ZyphrOptions\<close> (the connection details are left out). Thresholds, counts
  and instants are whole numbers.
\<close>

record ZyphrOptions =
  failureThreshold :: int
  successThreshold :: int
  resetTimeout :: int
  scenario :: int
  stateKey :: "string option"

type_synonym zworld = "CircuitState world"

subsection \<open>The functions of the class\<close>

text \<open>\<open>options.stateKey || 'circuit-breaker:zyphr'\<close>: a missing or empty key is falsy.\<close>

definition the_stateKey :: "ZyphrOptions \<Rightarrow> string" where
  "the_stateKey opts =
     (case stateKey opts of
        None \<Rightarrow> ''circuit-breaker:zyphr''
      | Some k \<Rightarrow> if k = [] then ''circuit-breaker:zyphr'' else k)"

definition initial_CircuitState :: CircuitState where
  "initial_CircuitState =
     \<lparr>state = CLOSED, failureCount = 0, successCount = 0, lastFailureTime = None\<rparr>"

definition getCircuitState :: "string \<Rightarrow> zworld \<Rightarrow> CircuitState" where
  "getCircuitState key w =
     (case redis w key of Some cs \<Rightarrow> cs | None \<Rightarrow> initial_CircuitState)"

definition setCircuitState :: "string \<Rightarrow> CircuitState \<Rightarrow> zworld \<Rightarrow> zworld" where
  "setCircuitState key cs w = w\<lparr>redis := (redis w)(key \<mapsto> cs)\<rparr>"

text \<open>
  \<open>request\<close>: the switch over the method string. \<open>get\<close> and \<open>delete\<close> pass no body to
  axios.
\<close>

definition request ::
  "string \<Rightarrow> string \<Rightarrow> string option \<Rightarrow> string option \<Rightarrow> zworld \<Rightarrow> (error + response) \<times> zworld"
where
  "request m u d c w =
     (if m = ''get'' then axios_call \<lparr>http_method = ''get'', url = u, data = None, config = c\<rparr> w
      else if m = ''post'' then axios_call \<lparr>http_method = ''post'', url = u, data = d, config = c\<rparr> w
      else if m = ''put'' then axios_call \<lparr>http_method = ''put'', url = u, data = d, config = c\<rparr> w
      else if m = ''delete'' then
        axios_call \<lparr>http_method = ''delete'', url = u, data = None, config = c\<rparr> w
      else (Inl InvalidMethod, w))"

text \<open>
  \<open>recordSuccess\<close> and \<open>recordFailure\<close> change the object they are given and save it; the
  changed object is returned together with the world.
\<close>

definition recordSuccess ::
  "ZyphrOptions \<Rightarrow> CircuitState \<Rightarrow> zworld \<Rightarrow> CircuitState \<times> zworld"
where
  "recordSuccess opts cs w =
     (let cs1 = cs\<lparr>failureCount := 0\<rparr> in
      if state cs1 = HALF_OPEN then
        (let cs2 = cs1\<lparr>successCount := successCount cs1 + 1\<rparr> in
         if successCount cs2 \<ge> successThreshold opts then
           (let cs3 = cs2\<lparr>state := CLOSED, successCount := 0\<rparr>;
                w1 = processQueue w
            in (cs3, setCircuitState (the_stateKey opts) cs3 w1))
         else (cs2, setCircuitState (the_stateKey opts) cs2 w))
      else (cs1, setCircuitState (the_stateKey opts) cs1 w))"

definition recordFailure ::
  "ZyphrOptions \<Rightarrow> CircuitState \<Rightarrow> zworld \<Rightarrow> CircuitState \<times> zworld"
where
  "recordFailure opts cs w =
     (let cs1 = cs\<lparr>failureCount := failureCount cs + 1\<rparr>;
          cs2 = cs1\<lparr>lastFailureTime := Some (clock w)\<rparr>;
          cs3 = (if state cs2 = HALF_OPEN
                    \<or> (state cs2 = CLOSED \<and> failureCount cs2 > failureThreshold opts)
                 then cs2\<lparr>state := OPEN\<rparr> else cs2)
      in (cs3, setCircuitState (the_stateKey opts) cs3 w))"

text \<open>
  The \<open>try\<close>/\<open>catch\<close> block of \<open>fireRequest\<close>. The store and the queue succeed in
  this variant, so \<open>recordSuccess\<close> does not throw and the \<open>catch\<close> block is entered
  from \<open>request\<close> only.
\<close>

definition attempt ::
  "ZyphrOptions \<Rightarrow> string \<Rightarrow> string \<Rightarrow> string option \<Rightarrow> string option \<Rightarrow> CircuitState
     \<Rightarrow> zworld \<Rightarrow> (error + response) \<times> zworld"
where
  "attempt opts m u d c cs w =
     (case request m u d c w of
        (Inr result, w1) \<Rightarrow> (Inr result, snd (recordSuccess opts cs w1))
      | (Inl err, w1) \<Rightarrow> (Inl err, snd (recordFailure opts cs w1)))"

text \<open>
  \<open>Date.now() - circuitState.lastFailureTime\<close>: in the subtraction \<open>null\<close> counts as 0.
\<close>

definition elapsed :: "CircuitState \<Rightarrow> zworld \<Rightarrow> int" where
  "elapsed cs w = clock w - (case lastFailureTime cs of None \<Rightarrow> 0 | Some t \<Rightarrow> t)"

definition fireRequest ::
  "ZyphrOptions \<Rightarrow> string \<Rightarrow> string \<Rightarrow> string option \<Rightarrow> string option \<Rightarrow> zworld
     \<Rightarrow> (error + response) \<times> zworld"
where
  "fireRequest opts m u d c w =
     (let circuitState = getCircuitState (the_stateKey opts) w in
      if state circuitState = OPEN then
        (if elapsed circuitState w > resetTimeout opts then
           (let cs' = circuitState\<lparr>state := HALF_OPEN\<rparr>
            in attempt opts m u d c cs' (setCircuitState (the_stateKey opts) cs' w))
         else if scenario opts = 1 then (Inl CircuitOpen, w)
         else if scenario opts = 2 then
           (Inl CircuitOpenQueued,
            queue_add \<lparr>http_method = m, url = u, data = d, config = c\<rparr> w)
         else attempt opts m u d c circuitState w)
      else attempt opts m u d c circuitState w)"

subsection \<open>The constructor's subscriptions and the public methods\<close>

text \<open>The handlers of \<open>'open'\<close>, \<open>'halfOpen'\<close> and \<open>'close'\<close>.\<close>

definition on_open :: "ZyphrOptions \<Rightarrow> zworld \<Rightarrow> zworld" where
  "on_open opts w =
     (let st = getCircuitState (the_stateKey opts) w;
          st1 = st\<lparr>state := OPEN\<rparr>;
          st2 = st1\<lparr>lastFailureTime := Some (clock w)\<rparr>
      in setCircuitState (the_stateKey opts) st2 w)"

definition on_halfOpen :: "ZyphrOptions \<Rightarrow> zworld \<Rightarrow> zworld" where
  "on_halfOpen opts w =
     (let st = getCircuitState (the_stateKey opts) w;
          st1 = st\<lparr>state := HALF_OPEN\<rparr>
      in setCircuitState (the_stateKey opts) st1 w)"

definition on_close :: "ZyphrOptions \<Rightarrow> zworld \<Rightarrow> zworld" where
  "on_close opts w =
     (let st = getCircuitState (the_stateKey opts) w;
          st1 = st\<lparr>state := CLOSED, failureCount := 0, successCount := 0\<rparr>
      in processQueue (setCircuitState (the_stateKey opts) st1 w))"

fun on_event :: "ZyphrOptions \<Rightarrow> breaker_event \<Rightarrow> zworld \<Rightarrow> zworld" where
  "on_event opts EvOpen w = on_open opts w"
| "on_event opts EvHalfOpen w = on_halfOpen opts w"
| "on_event opts EvClose w = on_close opts w"

text \<open>
  \<open>this._breaker.fire(method, url, data, config)\<close>: the breaker wraps \<open>fireRequest\<close>, and
  the handlers run on the events it emits.
\<close>

definition breaker_fire ::
  "ZyphrOptions \<Rightarrow> 'b breaker \<Rightarrow> 'b \<Rightarrow> string \<Rightarrow> string \<Rightarrow> string option \<Rightarrow> string option
     \<Rightarrow> zworld \<Rightarrow> (error + response) \<times> 'b \<times> zworld"
where
  "breaker_fire opts br b m u d c w =
     (case fire br b (clock w) (fireRequest opts m u d c) w of
        (r, b', evs, w') \<Rightarrow> (r, b', fold (on_event opts) evs w'))"

text \<open>The public methods; \<open>get\<close> and \<open>delete\<close> pass \<open>null\<close> as the body.\<close>

definition get ::
  "ZyphrOptions \<Rightarrow> 'b breaker \<Rightarrow> 'b \<Rightarrow> string \<Rightarrow> string option \<Rightarrow> zworld
     \<Rightarrow> (error + response) \<times> 'b \<times> zworld"
where
  "get opts br b u c = breaker_fire opts br b ''get'' u None c"

definition post ::
  "ZyphrOptions \<Rightarrow> 'b breaker \<Rightarrow> 'b \<Rightarrow> string \<Rightarrow> string option \<Rightarrow> string option \<Rightarrow> zworld
     \<Rightarrow> (error + response) \<times> 'b \<times> zworld"
where
  "post opts br b u d c = breaker_fire opts br b ''post'' u d c"

definition put ::
  "ZyphrOptions \<Rightarrow> 'b breaker \<Rightarrow> 'b \<Rightarrow> string \<Rightarrow> string option \<Rightarrow> string option \<Rightarrow> zworld
     \<Rightarrow> (error + response) \<times> 'b \<times> zworld"
where
  "put opts br b u d c = breaker_fire opts br b ''put'' u d c"

definition delete ::
  "ZyphrOptions \<Rightarrow> 'b breaker \<Rightarrow> 'b \<Rightarrow> string \<Rightarrow> string option \<Rightarrow> zworld
     \<Rightarrow> (error + response) \<times> 'b \<times> zworld"
where
  "delete opts br b u c = breaker_fire opts br b ''delete'' u None c"



text \<open>
  The callback given to \<open>queue.process\<close>: a job handed to the worker is passed to
  \<open>request\<close>.
\<close>

definition worker :: "ZyphrOptions \<Rightarrow> JobData \<Rightarrow> zworld \<Rightarrow> (error + response) \<times> zworld" where
  "worker opts job w = request (http_method job) (url job) (data job) (config job) w"

section \<open>The variant of \<open>src/unnamed/part_000\<close>\<close>

subsection \<open>Data\<close>

text \<open>\<open>enum SCENARIO\<close>.\<close>

definition RETURN_ERROR :: int where
  "RETURN_ERROR = 1"

definition QUEUE_REQUEST :: int where
  "QUEUE_REQUEST = 2"

text \<open>\<open>interface ZyphrOptions\<close> of this variant (the connection details are left out).\<close>

record ZyphrOptions_g =
  resetTimeout_g :: int
  scenario_g :: int
  stateKey_g :: "string option"
  globalTtl_g :: "int option"

text \<open>The private fields \<open>_stateKey\<close>, \<open>_scenario\<close> and \<open>_ttl\<close> of an instance.\<close>

record Zyphr_g =
  priv_stateKey :: string
  priv_scenario :: int
  priv_ttl :: int

text \<open>
  The constructor: \<open>options.stateKey || "zyphr:global:circuit"\<close> and
  \<open>options.globalTtl || 30\<close>; an empty key and a zero time-to-live are falsy.
\<close>

definition new_Zyphr_g :: "ZyphrOptions_g \<Rightarrow> Zyphr_g" where
  "new_Zyphr_g options =
     \<lparr>priv_stateKey =
        (case stateKey_g options of
           None \<Rightarrow> ''zyphr:global:circuit''
         | Some k \<Rightarrow> if k = [] then ''zyphr:global:circuit'' else k),
      priv_scenario = scenario_g options,
      priv_ttl =
        (case globalTtl_g options of None \<Rightarrow> 30 | Some t \<Rightarrow> if t = 0 then 30 else t)\<rparr>"

text \<open>
  In this variant the value under a key is a text together with the instant (in
  milliseconds) at which the store drops it, and a command of the store fails while the
  store is not \<open>reachable\<close>.
\<close>

record gate_world = "(string \<times> int) world" +
  reachable :: bool

text \<open>
  \<open>redis.get(key)\<close> and \<open>redis.set(key, value, "EX", ttl)\<close> of the shared store (get and
  set with expiry, the time-to-live in seconds).
\<close>

definition redis_get :: "string \<Rightarrow> gate_world \<Rightarrow> error + string option" where
  "redis_get key w =
     (if reachable w then
        Inr (case redis w key of
               None \<Rightarrow> None
             | Some (v, expiry) \<Rightarrow> if clock w < expiry then Some v else None)
      else Inl StoreFailure)"

definition redis_set_ex :: "string \<Rightarrow> string \<Rightarrow> int \<Rightarrow> gate_world \<Rightarrow> error + gate_world" where
  "redis_set_ex key v ttl w =
     (if reachable w then Inr (w\<lparr>redis := (redis w)(key \<mapsto> (v, clock w + ttl * 1000))\<rparr>)
      else Inl StoreFailure)"

subsection \<open>The functions of the class\<close>

definition isGloballyOpen :: "Zyphr_g \<Rightarrow> gate_world \<Rightarrow> error + bool" where
  "isGloballyOpen z w =
     (case redis_get (priv_stateKey z) w of
        Inl e \<Rightarrow> Inl e
      | Inr st \<Rightarrow> Inr (st = Some ''OPEN''))"

text \<open>\<open>executor\<close>: \<open>axios({ method, url, data, ...config })\<close>.\<close>

definition executor ::
  "string \<Rightarrow> string \<Rightarrow> string option \<Rightarrow> string option \<Rightarrow> gate_world
     \<Rightarrow> (error + response) \<times> gate_world"
where
  "executor m u d c w = axios_call \<lparr>http_method = m, url = u, data = d, config = c\<rparr> w"

text \<open>
  The handlers of \<open>'open'\<close>, \<open>'halfOpen'\<close> and \<open>'close'\<close>. The first two do not wait for the
  store; the third does, so that a failed write ends it before \<open>processQueue\<close>.
\<close>

definition on_open_g :: "Zyphr_g \<Rightarrow> gate_world \<Rightarrow> gate_world" where
  "on_open_g z w =
     (case redis_set_ex (priv_stateKey z) ''OPEN'' (priv_ttl z) w of
        Inl e \<Rightarrow> w
      | Inr w' \<Rightarrow> w')"

definition on_halfOpen_g :: "Zyphr_g \<Rightarrow> gate_world \<Rightarrow> gate_world" where
  "on_halfOpen_g z w =
     (case redis_set_ex (priv_stateKey z) ''HALF_OPEN'' (priv_ttl z) w of
        Inl e \<Rightarrow> w
      | Inr w' \<Rightarrow> w')"

definition on_close_g :: "Zyphr_g \<Rightarrow> gate_world \<Rightarrow> gate_world" where
  "on_close_g z w =
     (case redis_set_ex (priv_stateKey z) ''CLOSED'' (priv_ttl z) w of
        Inl e \<Rightarrow> w
      | Inr w' \<Rightarrow> processQueue w')"

fun on_event_g :: "Zyphr_g \<Rightarrow> breaker_event \<Rightarrow> gate_world \<Rightarrow> gate_world" where
  "on_event_g z EvOpen w = on_open_g z w"
| "on_event_g z EvHalfOpen w = on_halfOpen_g z w"
| "on_event_g z EvClose w = on_close_g z w"

text \<open>
  \<open>this._breaker.fire(method, url, data, config)\<close>: the breaker wraps \<open>executor\<close>, and the
  handlers run on the events it emits.
\<close>

definition breaker_fire_g ::
  "Zyphr_g \<Rightarrow> 'b breaker \<Rightarrow> 'b \<Rightarrow> string \<Rightarrow> string \<Rightarrow> string option \<Rightarrow> string option
     \<Rightarrow> gate_world \<Rightarrow> (error + response) \<times> 'b \<times> gate_world"
where
  "breaker_fire_g z br b m u d c w =
     (case fire br b (clock w) (executor m u d c) w of
        (r, b', evs, w') \<Rightarrow> (r, b', fold (on_event_g z) evs w'))"

definition handleRequest ::
  "Zyphr_g \<Rightarrow> 'b breaker \<Rightarrow> 'b \<Rightarrow> string \<Rightarrow> string \<Rightarrow> string option \<Rightarrow> string option
     \<Rightarrow> gate_world \<Rightarrow> (error + response) \<times> 'b \<times> gate_world"
where
  "handleRequest z br b m u d c w =
     (case isGloballyOpen z w of
        Inl e \<Rightarrow> (Inl e, b, w)
      | Inr gated \<Rightarrow>
          if gated then
            (if priv_scenario z = RETURN_ERROR then (Inl GloballyOpen, b, w)
             else (Inl GloballyOpenQueued, b,
                   queue_add \<lparr>http_method = m, url = u, data = d, config = c\<rparr> w))
          else breaker_fire_g z br b m u d c w)"

text \<open>The public methods; \<open>get\<close> and \<open>delete\<close> pass \<open>undefined\<close> as the body.\<close>

definition get_g ::
  "Zyphr_g \<Rightarrow> 'b breaker \<Rightarrow> 'b \<Rightarrow> string \<Rightarrow> string option \<Rightarrow> gate_world
     \<Rightarrow> (error + response) \<times> 'b \<times> gate_world"
where
  "get_g z br b u c = handleRequest z br b ''get'' u None c"




text \<open>
  The callback given to \<open>queue.process\<close>: a job handed to the worker goes through the
  breaker.
\<close>

definition worker_g ::
  "Zyphr_g \<Rightarrow> 'b breaker \<Rightarrow> 'b \<Rightarrow> JobData \<Rightarrow> gate_world \<Rightarrow> (error + response) \<times> 'b \<times> gate_world"
where
  "worker_g z br b job w = breaker_fire_g z br b (http_method job) (url job) (data job) (config job) w"

section \<open>Concrete inputs\<close>

text \<open>Options, endpoints and worlds at which the theorems below are instantiated.\<close>

definition options_3_2_100 :: "int \<Rightarrow> ZyphrOptions" where
  "options_3_2_100 sc =
     \<lparr>failureThreshold = 3, successThreshold = 2, resetTimeout = 100, scenario = sc,
      stateKey = None\<rparr>"

definition refusing :: "int \<Rightarrow> JobData \<Rightarrow> string + response" where
  "refusing t j = Inl ''ECONNREFUSED''"

definition answering :: "int \<Rightarrow> JobData \<Rightarrow> string + response" where
  "answering t j = Inr ''ok''"

definition zworld_at ::
  "int \<Rightarrow> CircuitState option \<Rightarrow> JobData list \<Rightarrow> (int \<Rightarrow> JobData \<Rightarrow> string + response) \<Rightarrow> zworld"
where
  "zworld_at t cs js ep =
     \<lparr>clock = t, redis = (\<lambda>k. if k = ''circuit-breaker:zyphr'' then cs else None),
      waiting = js, handed = [], sent = [], endpoint = ep\<rparr>"

definition gate_world_at ::
  "int \<Rightarrow> (string \<times> int) option \<Rightarrow> bool \<Rightarrow> (int \<Rightarrow> JobData \<Rightarrow> string + response)
     \<Rightarrow> gate_world"
where
  "gate_world_at t entry up ep =
     \<lparr>clock = t, redis = (\<lambda>k. if k = ''zyphr:global:circuit'' then entry else None),
      waiting = [], handed = [], sent = [], endpoint = ep, reachable = up\<rparr>"

text \<open>A breaker that lets every call through and never emits an event.\<close>

definition passive_breaker :: "unit breaker" where
  "passive_breaker = \<lparr>admits = (\<lambda>b t. True), settle = (\<lambda>b t ok. (b, []))\<rparr>"

text \<open>A breaker that opens on the first failure and closes on the first success.\<close>

definition jumpy_breaker :: "bool breaker" where
  "jumpy_breaker =
     \<lparr>admits = (\<lambda>b t. True),
      settle = (\<lambda>b t ok. if ok then (False, if b then [EvClose] else [])
                          else (True, if b then [] else [EvOpen]))\<rparr>"

section \<open>Properties of the variant of \<open>src/src/zyphr.ts\<close>\<close>

subsection \<open>Auxiliary facts\<close>



lemma promote_each_prefix:
  "waiting w = js @ r \<Longrightarrow>
     promote_each js w = w\<lparr>waiting := r, handed := handed w @ js\<rparr>"
proof (induction js arbitrary: w)
  case Nil
  then show ?case by simp
next
  case (Cons j js)
  have "promote j w = w\<lparr>waiting := js @ r, handed := handed w @ [j]\<rparr>"
    using Cons.prems by (simp add: promote_def)
  moreover have "waiting (w\<lparr>waiting := js @ r, handed := handed w @ [j]\<rparr>) = js @ r"
    by simp
  ultimately show ?case
    using Cons.IH [of "w\<lparr>waiting := js @ r, handed := handed w @ [j]\<rparr>"] by simp
qed

lemma processQueue_drains:
  "processQueue w = w\<lparr>waiting := [], handed := handed w @ waiting w\<rparr>"
  using promote_each_prefix [of w "waiting w" "[]"]
  by (simp add: processQueue_def getWaiting_def)

lemma recordSuccess_saved:
  "getCircuitState (the_stateKey opts) (snd (recordSuccess opts cs w)) = fst (recordSuccess opts cs w)"
  by (simp add: recordSuccess_def getCircuitState_def setCircuitState_def Let_def)

lemma axios_call_fields:
  "sent (snd (axios_call j w)) = sent w @ [j]"
  "waiting (snd (axios_call j w)) = waiting w"
  "handed (snd (axios_call j w)) = handed w"
  "redis (snd (axios_call j w)) = redis w"
  "clock (snd (axios_call j w)) = clock w"
  "fst (axios_call j w) \<noteq> Inl InvalidMethod"
  "fst (axios_call j w) \<noteq> Inl CircuitOpen"
  "fst (axios_call j w) \<noteq> Inl CircuitOpenQueued"
  by (simp_all add: axios_call_def split: sum.splits)

lemma request_valid:
  assumes "m \<in> {''get'', ''post'', ''put'', ''delete''}"
  shows "request m u d c w =
           axios_call \<lparr>http_method = m, url = u,
                        data = (if m = ''get'' \<or> m = ''delete'' then None else d),
                        config = c\<rparr> w"
  using assms by (auto simp add: request_def)

lemma request_invalid:
  "m \<notin> {''get'', ''post'', ''put'', ''delete''} \<Longrightarrow> request m u d c w = (Inl InvalidMethod, w)"
  by (simp add: request_def)

lemma request_frame:
  "waiting (snd (request m u d c w)) = waiting w"
  "handed (snd (request m u d c w)) = handed w"
  "redis (snd (request m u d c w)) = redis w"
  "clock (snd (request m u d c w)) = clock w"
  by (simp_all add: request_def axios_call_fields)

lemma request_not_gated:
  "fst (request m u d c w) \<noteq> Inl CircuitOpen"
  "fst (request m u d c w) \<noteq> Inl CircuitOpenQueued"
  by (simp_all add: request_def axios_call_fields)

lemma recordFailure_written:
  "redis (snd (recordFailure opts cs w)) (the_stateKey opts) = Some (fst (recordFailure opts cs w))"
  by (simp add: recordFailure_def setCircuitState_def Let_def)

lemma recordSuccess_written:
  "redis (snd (recordSuccess opts cs w)) (the_stateKey opts) = Some (fst (recordSuccess opts cs w))"
  by (simp add: recordSuccess_def setCircuitState_def Let_def)

lemma recordSuccess_sent: "sent (snd (recordSuccess opts cs w)) = sent w"
  by (simp add: recordSuccess_def Let_def setCircuitState_def processQueue_drains)

lemma recordFailure_frame:
  "sent (snd (recordFailure opts cs w)) = sent w"
  "waiting (snd (recordFailure opts cs w)) = waiting w"
  "handed (snd (recordFailure opts cs w)) = handed w"
  by (simp_all add: recordFailure_def Let_def setCircuitState_def)

lemma recordSuccess_not_half_open:
  "state cs \<noteq> HALF_OPEN \<Longrightarrow>
     recordSuccess opts cs w =
       (cs\<lparr>failureCount := 0\<rparr>, setCircuitState (the_stateKey opts) (cs\<lparr>failureCount := 0\<rparr>) w)"
  by (simp add: recordSuccess_def Let_def)

lemma attempt_result: "fst (attempt opts m u d c cs w) = fst (request m u d c w)"
  by (cases "request m u d c w") (simp add: attempt_def split: sum.splits)

lemma attempt_sent: "sent (snd (attempt opts m u d c cs w)) = sent (snd (request m u d c w))"
  by (cases "request m u d c w")
     (simp add: attempt_def recordSuccess_sent recordFailure_frame split: sum.splits)

lemma attempt_waiting:
  "state cs \<noteq> HALF_OPEN \<Longrightarrow> waiting (snd (attempt opts m u d c cs w)) = waiting w"
  using request_frame(1) [of m u d c w]
  by (cases "request m u d c w")
     (simp add: attempt_def recordSuccess_not_half_open recordFailure_frame setCircuitState_def
        split: sum.splits)

lemma request_setCircuitState:
  "fst (request m u d c (setCircuitState key cs w)) = fst (request m u d c w)"
  "sent (snd (request m u d c (setCircuitState key cs w))) = sent (snd (request m u d c w))"
  by (simp_all add: request_def axios_call_def setCircuitState_def)


lemma fireRequest_not_invalid:
  assumes "m \<in> {''get'', ''post'', ''put'', ''delete''}"
  shows "fst (fireRequest opts m u d c w) \<noteq> Inl InvalidMethod"
  by (simp add: fireRequest_def Let_def attempt_result request_valid [OF assms] axios_call_fields)

lemma breaker_fire_not_invalid:
  assumes "m \<in> {''get'', ''post'', ''put'', ''delete''}"
  shows "fst (breaker_fire opts br b m u d c w) \<noteq> Inl InvalidMethod"
proof (cases "admits br b (clock w)")
  case False
  then show ?thesis by (simp add: breaker_fire_def fire_def)
next
  case True
  obtain r w' where act: "fireRequest opts m u d c w = (r, w')"
    by (cases "fireRequest opts m u d c w")
  have "r \<noteq> Inl InvalidMethod"
    using fireRequest_not_invalid [OF assms, of opts u d c w] act by simp
  then show ?thesis
    using True act by (simp add: breaker_fire_def fire_def split: prod.splits)
qed

lemma promote_each_endpoint: "endpoint (promote_each js w) = endpoint w"
  by (induction js arbitrary: w) (simp_all add: promote_def)


lemma on_event_sent: "sent (on_event opts ev w) = sent w"
  by (cases ev)
     (simp_all add: on_open_def on_halfOpen_def on_close_def setCircuitState_def
        processQueue_drains Let_def)

lemma fold_on_event_sent: "sent (fold (on_event opts) evs w) = sent w"
  by (induction evs arbitrary: w) (simp_all add: on_event_sent)

lemma breaker_fire_shut:
  "\<not> admits br b (clock w) \<Longrightarrow> breaker_fire opts br b m u d c w = (Inl BreakerRejected, b, w)"
  by (simp add: breaker_fire_def fire_def)

lemma breaker_fire_admitted:
  "admits br b (clock w) \<Longrightarrow>
     breaker_fire opts br b m u d c w =
       (fst (fireRequest opts m u d c w),
        fst (settle br b (clock w) (\<not> isl (fst (fireRequest opts m u d c w)))),
        fold (on_event opts)
          (snd (settle br b (clock w) (\<not> isl (fst (fireRequest opts m u d c w)))))
          (snd (fireRequest opts m u d c w)))"
  by (simp add: breaker_fire_def fire_def split: prod.splits)



lemma getCircuitState_clock [simp]:
  "getCircuitState key (w\<lparr>clock := t\<rparr>) = getCircuitState key w"
  by (simp add: getCircuitState_def)



lemma on_open_stored:
  "getCircuitState (the_stateKey opts) (on_open opts w) =
     (getCircuitState (the_stateKey opts) w)\<lparr>state := OPEN, lastFailureTime := Some (clock w)\<rparr>"
  by (simp add: on_open_def Let_def getCircuitState_def setCircuitState_def)

lemma fireRequest_gated:
  assumes "scenario opts = 1 \<or> scenario opts = 2"
      and "state (getCircuitState (the_stateKey opts) w) = OPEN"
      and "elapsed (getCircuitState (the_stateKey opts) w) w \<le> resetTimeout opts"
  shows "fireRequest opts m u d c w = (Inl CircuitOpen, w)
       \<or> fireRequest opts m u d c w =
           (Inl CircuitOpenQueued, queue_add \<lparr>http_method = m, url = u, data = d, config = c\<rparr> w)"
  using assms by (auto simp add: fireRequest_def Let_def)

lemma fireRequest_gated_facts:
  assumes "scenario opts = 1 \<or> scenario opts = 2"
      and "state (getCircuitState (the_stateKey opts) w) = OPEN"
      and "elapsed (getCircuitState (the_stateKey opts) w) w \<le> resetTimeout opts"
  shows "isl (fst (fireRequest opts m u d c w))"
    and "sent (snd (fireRequest opts m u d c w)) = sent w"
    and "redis (snd (fireRequest opts m u d c w)) = redis w"
    and "clock (snd (fireRequest opts m u d c w)) = clock w"
  using fireRequest_gated [OF assms, of m u d c] by (auto simp add: queue_add_def)

lemma fireRequest_probe:
  assumes "state (getCircuitState (the_stateKey opts) w) = OPEN"
      and "resetTimeout opts < elapsed (getCircuitState (the_stateKey opts) w) w"
  shows "fireRequest opts m u d c w =
           attempt opts m u d c ((getCircuitState (the_stateKey opts) w)\<lparr>state := HALF_OPEN\<rparr>)
             (setCircuitState (the_stateKey opts)
                ((getCircuitState (the_stateKey opts) w)\<lparr>state := HALF_OPEN\<rparr>) w)"
  using assms by (simp add: fireRequest_def Let_def)

lemma attempt_valid_sent:
  "m \<in> {''get'', ''post'', ''put'', ''delete''} \<Longrightarrow>
     sent (snd (attempt opts m u d c cs (setCircuitState key cs' w))) =
       sent w @ [\<lparr>http_method = m, url = u,
                   data = (if m = ''get'' \<or> m = ''delete'' then None else d), config = c\<rparr>]"
  by (simp add: attempt_sent request_valid axios_call_fields setCircuitState_def)

subsection \<open>Opening on failures\<close>




subsection \<open>A failure while HALF_OPEN\<close>

text \<open>
  C4: claimed is that a single failure recorded in phase HALF_OPEN moves the phase to OPEN
  and resets \<open>successCount\<close> to 0. \<open>recordFailure\<close> moves the phase to OPEN but never
  assigns \<open>successCount\<close>: with the stored state HALF_OPEN and \<open>successCount = 1\<close>, a call
  that fails at instant 150 saves the phase OPEN with \<open>successCount = 1\<close>. With
  \<open>successThreshold = 2\<close> and a reset timeout of 100, the next call, at instant 300,
  re-enters HALF_OPEN and, succeeding, closes the breaker by itself.
\<close>

theorem half_open_failure_keeps_successCount:
  "fst (recordFailure (options_3_2_100 1)
     \<lparr>state = HALF_OPEN, failureCount = 0, successCount = 1, lastFailureTime = Some 0\<rparr>
     (zworld_at 150
        (Some \<lparr>state = HALF_OPEN, failureCount = 0, successCount = 1, lastFailureTime = Some 0\<rparr>)
        [] refusing))
     = \<lparr>state = OPEN, failureCount = 1, successCount = 1, lastFailureTime = Some 150\<rparr>
   \<and> getCircuitState (the_stateKey (options_3_2_100 1))
       (snd (fireRequest (options_3_2_100 1) ''get'' ''/x'' None None
          (zworld_at 150
             (Some \<lparr>state = HALF_OPEN, failureCount = 0, successCount = 1, lastFailureTime = Some 0\<rparr>)
             [] refusing)))
     = \<lparr>state = OPEN, failureCount = 1, successCount = 1, lastFailureTime = Some 150\<rparr>
   \<and> getCircuitState (the_stateKey (options_3_2_100 1))
       (snd (fireRequest (options_3_2_100 1) ''get'' ''/x'' None None
          (zworld_at 300
             (Some \<lparr>state = OPEN, failureCount = 1, successCount = 1, lastFailureTime = Some 150\<rparr>)
             [] answering)))
     = \<lparr>state = CLOSED, failureCount = 0, successCount = 0, lastFailureTime = Some 150\<rparr>"
  by (simp add: fireRequest_def attempt_def request_def axios_call_def recordFailure_def
        recordSuccess_def Let_def options_3_2_100_def zworld_at_def getCircuitState_def
        setCircuitState_def the_stateKey_def elapsed_def refusing_def answering_def
        processQueue_drains)

subsection \<open>Closing on successes\<close>

text \<open>
  C5: from HALF_OPEN, a recorded success increments \<open>successCount\<close> while the incremented
  count stays below \<open>successThreshold\<close>; when it reaches the threshold, the phase becomes
  CLOSED, \<open>failureCount\<close> and \<open>successCount\<close> are both 0, and the queue is drained: every
  waiting job is handed to the worker and none is left waiting. The state that is saved
  is the state so changed.
\<close>

theorem half_open_success_counts_then_closes:
  assumes "state cs = HALF_OPEN"
  shows "(successCount cs + 1 < successThreshold opts \<longrightarrow>
            fst (recordSuccess opts cs w) = cs\<lparr>failureCount := 0, successCount := successCount cs + 1\<rparr>
          \<and> waiting (snd (recordSuccess opts cs w)) = waiting w
          \<and> handed (snd (recordSuccess opts cs w)) = handed w)
       \<and> (successThreshold opts \<le> successCount cs + 1 \<longrightarrow>
            fst (recordSuccess opts cs w) = cs\<lparr>failureCount := 0, state := CLOSED, successCount := 0\<rparr>
          \<and> snd (recordSuccess opts cs w) =
              setCircuitState (the_stateKey opts) (fst (recordSuccess opts cs w)) (processQueue w)
          \<and> waiting (snd (recordSuccess opts cs w)) = []
          \<and> handed (snd (recordSuccess opts cs w)) = handed w @ waiting w)
       \<and> getCircuitState (the_stateKey opts) (snd (recordSuccess opts cs w))
           = fst (recordSuccess opts cs w)"
proof -
  have below: "successCount cs + 1 < successThreshold opts \<Longrightarrow>
      recordSuccess opts cs w =
        (cs\<lparr>failureCount := 0, successCount := successCount cs + 1\<rparr>,
         setCircuitState (the_stateKey opts)
           (cs\<lparr>failureCount := 0, successCount := successCount cs + 1\<rparr>) w)"
    using assms by (simp add: recordSuccess_def Let_def)
  have reached: "successThreshold opts \<le> successCount cs + 1 \<Longrightarrow>
      recordSuccess opts cs w =
        (cs\<lparr>failureCount := 0, state := CLOSED, successCount := 0\<rparr>,
         setCircuitState (the_stateKey opts)
           (cs\<lparr>failureCount := 0, state := CLOSED, successCount := 0\<rparr>) (processQueue w))"
    using assms by (simp add: recordSuccess_def Let_def)
  show ?thesis
    using below reached
    by (simp add: recordSuccess_saved setCircuitState_def processQueue_drains)
qed

theorem half_open_success_counts_then_closes_witness:
  "state \<lparr>state = HALF_OPEN, failureCount = 2, successCount = 0, lastFailureTime = Some 0\<rparr> = HALF_OPEN
   \<and> successCount \<lparr>state = HALF_OPEN, failureCount = 2, successCount = 0, lastFailureTime = Some 0\<rparr> + 1
        < successThreshold (options_3_2_100 2)
   \<and> fst (recordSuccess (options_3_2_100 2)
            \<lparr>state = HALF_OPEN, failureCount = 2, successCount = 0, lastFailureTime = Some 0\<rparr>
            (zworld_at 150 None [\<lparr>http_method = ''post'', url = ''/orders'', data = Some ''1'', config = None\<rparr>] answering))
       = \<lparr>state = HALF_OPEN, failureCount = 0, successCount = 1, lastFailureTime = Some 0\<rparr>
   \<and> successThreshold (options_3_2_100 2)
        \<le> successCount \<lparr>state = HALF_OPEN, failureCount = 0, successCount = 1, lastFailureTime = Some 0\<rparr> + 1
   \<and> fst (recordSuccess (options_3_2_100 2)
            \<lparr>state = HALF_OPEN, failureCount = 0, successCount = 1, lastFailureTime = Some 0\<rparr>
            (zworld_at 150 None [\<lparr>http_method = ''post'', url = ''/orders'', data = Some ''1'', config = None\<rparr>] answering))
       = \<lparr>state = CLOSED, failureCount = 0, successCount = 0, lastFailureTime = Some 0\<rparr>
   \<and> handed (snd (recordSuccess (options_3_2_100 2)
            \<lparr>state = HALF_OPEN, failureCount = 0, successCount = 1, lastFailureTime = Some 0\<rparr>
            (zworld_at 150 None [\<lparr>http_method = ''post'', url = ''/orders'', data = Some ''1'', config = None\<rparr>] answering)))
       = [\<lparr>http_method = ''post'', url = ''/orders'', data = Some ''1'', config = None\<rparr>]"
  using half_open_success_counts_then_closes
          [of "\<lparr>state = HALF_OPEN, failureCount = 2, successCount = 0, lastFailureTime = Some 0\<rparr>"
              "options_3_2_100 2"
              "zworld_at 150 None [\<lparr>http_method = ''post'', url = ''/orders'', data = Some ''1'', config = None\<rparr>] answering"]
        half_open_success_counts_then_closes
          [of "\<lparr>state = HALF_OPEN, failureCount = 0, successCount = 1, lastFailureTime = Some 0\<rparr>"
              "options_3_2_100 2"
              "zworld_at 150 None [\<lparr>http_method = ''post'', url = ''/orders'', data = Some ''1'', config = None\<rparr>] answering"]
  by (simp add: options_3_2_100_def zworld_at_def recordSuccess_def Let_def processQueue_drains
        setCircuitState_def)

subsection \<open>Calls while OPEN\<close>

text \<open>
  C6, as claimed, fails in two ways. With a scenario other than 1 and 2, a public call
  made 50 ms after the last failure, with a reset timeout of 100 ms and the stored phase
  OPEN, is sent to the transport. With scenario 1, the timeout does not run from the
  instant OPEN was entered: a call rejected at instant 50, on which the library breaker
  opens, has the handler of \<open>'open'\<close> store \<open>lastFailureTime = 50\<close>, and the call made at
  instant 120, more than 100 ms after OPEN was entered at 0, is rejected again.
\<close>

theorem open_timeout_counterexample:
  "state (getCircuitState (the_stateKey (options_3_2_100 3))
      (zworld_at 50 (Some \<lparr>state = OPEN, failureCount = 4, successCount = 0, lastFailureTime = Some 0\<rparr>)
         [] refusing)) = OPEN
   \<and> resetTimeout (options_3_2_100 3) = 100
   \<and> sent (snd (snd (get (options_3_2_100 3) passive_breaker () ''/x'' None
      (zworld_at 50 (Some \<lparr>state = OPEN, failureCount = 4, successCount = 0, lastFailureTime = Some 0\<rparr>)
         [] refusing))))
     = [\<lparr>http_method = ''get'', url = ''/x'', data = None, config = None\<rparr>]
   \<and> get (options_3_2_100 1) jumpy_breaker False ''/x'' None
      (zworld_at 50 (Some \<lparr>state = OPEN, failureCount = 4, successCount = 0, lastFailureTime = Some 0\<rparr>)
         [] refusing)
     = (Inl CircuitOpen, True,
        zworld_at 50 (Some \<lparr>state = OPEN, failureCount = 4, successCount = 0, lastFailureTime = Some 50\<rparr>)
          [] refusing)
   \<and> get (options_3_2_100 1) jumpy_breaker True ''/x'' None
      (zworld_at 120 (Some \<lparr>state = OPEN, failureCount = 4, successCount = 0, lastFailureTime = Some 50\<rparr>)
         [] refusing)
     = (Inl CircuitOpen, True,
        zworld_at 120 (Some \<lparr>state = OPEN, failureCount = 4, successCount = 0, lastFailureTime = Some 50\<rparr>)
          [] refusing)"
  by (simp add: get_def breaker_fire_def fire_def jumpy_breaker_def passive_breaker_def
        fireRequest_def attempt_def request_def axios_call_def recordFailure_def on_open_def
        Let_def options_3_2_100_def zworld_at_def getCircuitState_def setCircuitState_def
        the_stateKey_def elapsed_def refusing_def fun_eq_iff)

text \<open>
  C6, amended: when the scenario is 1 or 2 and the stored phase is OPEN, a public call
  made while no more than \<open>resetTimeout\<close> milliseconds have passed since the stored
  \<open>lastFailureTime\<close> fails without reaching the transport, whatever the library breaker
  does. \<open>lastFailureTime\<close> is the instant of the last recorded failure or of the last
  \<open>'open'\<close> event of the library breaker: a rejected call on which the library breaker
  emits \<open>'open'\<close> moves it to the instant of that call, and so restarts the timeout; a
  call that the library breaker itself rejects, or on which it emits no event, leaves the
  store as it was. A call made once more than \<open>resetTimeout\<close> milliseconds have passed,
  if the library breaker lets it through, saves the phase HALF_OPEN and is itself
  attempted, and with one of the four methods it is sent to the transport. The four
  public methods are \<open>breaker_fire\<close> at their method string.
\<close>

theorem open_rejects_until_reset_timeout:
  assumes "scenario opts = 1 \<or> scenario opts = 2"
      and "state (getCircuitState (the_stateKey opts) w) = OPEN"
  shows "(elapsed (getCircuitState (the_stateKey opts) w) w \<le> resetTimeout opts \<longrightarrow>
            isl (fst (breaker_fire opts br b m u d c w))
          \<and> sent (snd (snd (breaker_fire opts br b m u d c w))) = sent w)
       \<and> (\<not> admits br b (clock w) \<longrightarrow>
            breaker_fire opts br b m u d c w = (Inl BreakerRejected, b, w))
       \<and> (elapsed (getCircuitState (the_stateKey opts) w) w \<le> resetTimeout opts
            \<and> admits br b (clock w) \<and> snd (settle br b (clock w) False) = [] \<longrightarrow>
            redis (snd (snd (breaker_fire opts br b m u d c w))) = redis w)
       \<and> (elapsed (getCircuitState (the_stateKey opts) w) w \<le> resetTimeout opts
            \<and> admits br b (clock w) \<and> snd (settle br b (clock w) False) = [EvOpen] \<longrightarrow>
            getCircuitState (the_stateKey opts) (snd (snd (breaker_fire opts br b m u d c w)))
              = (getCircuitState (the_stateKey opts) w)\<lparr>lastFailureTime := Some (clock w)\<rparr>)
       \<and> (resetTimeout opts < elapsed (getCircuitState (the_stateKey opts) w) w
            \<and> admits br b (clock w) \<longrightarrow>
            fireRequest opts m u d c w =
              attempt opts m u d c ((getCircuitState (the_stateKey opts) w)\<lparr>state := HALF_OPEN\<rparr>)
                (setCircuitState (the_stateKey opts)
                   ((getCircuitState (the_stateKey opts) w)\<lparr>state := HALF_OPEN\<rparr>) w)
          \<and> fst (breaker_fire opts br b m u d c w) = fst (fireRequest opts m u d c w)
          \<and> (m \<in> {''get'', ''post'', ''put'', ''delete''} \<longrightarrow>
                sent (snd (snd (breaker_fire opts br b m u d c w))) =
                  sent w @ [\<lparr>http_method = m, url = u,
                              data = (if m = ''get'' \<or> m = ''delete'' then None else d),
                              config = c\<rparr>]))
       \<and> elapsed (fst (recordFailure opts cs0 w0)) w = clock w - clock w0
       \<and> elapsed (getCircuitState (the_stateKey opts) (on_open opts w0)) w = clock w - clock w0
       \<and> get opts br b u c = breaker_fire opts br b ''get'' u None c
       \<and> post opts br b u d c = breaker_fire opts br b ''post'' u d c
       \<and> put opts br b u d c = breaker_fire opts br b ''put'' u d c
       \<and> delete opts br b u c = breaker_fire opts br b ''delete'' u None c"
proof -
  let ?key = "the_stateKey opts"
  let ?cs = "getCircuitState ?key w"
  let ?half = "?cs\<lparr>state := HALF_OPEN\<rparr>"
  let ?R = "breaker_fire opts br b m u d c w"
  let ?F = "fireRequest opts m u d c w"
  have shut: "\<not> admits br b (clock w) \<Longrightarrow> ?R = (Inl BreakerRejected, b, w)"
    by (rule breaker_fire_shut)
  have early: "elapsed ?cs w \<le> resetTimeout opts \<Longrightarrow>
      isl (fst ?R) \<and> sent (snd (snd ?R)) = sent w"
  proof (cases "admits br b (clock w)")
    case False
    then show ?thesis by (simp add: shut)
  next
    case True
    assume e: "elapsed ?cs w \<le> resetTimeout opts"
    show ?thesis
      using fireRequest_gated_facts(1,2) [OF assms e, of m u d c]
      by (simp add: breaker_fire_admitted [OF True] fold_on_event_sent)
  qed
  have silent: "elapsed ?cs w \<le> resetTimeout opts \<and> admits br b (clock w)
        \<and> snd (settle br b (clock w) False) = [] \<Longrightarrow> redis (snd (snd ?R)) = redis w"
  proof -
    assume h: "elapsed ?cs w \<le> resetTimeout opts \<and> admits br b (clock w)
        \<and> snd (settle br b (clock w) False) = []"
    then have e: "elapsed ?cs w \<le> resetTimeout opts" and a: "admits br b (clock w)"
      and s: "snd (settle br b (clock w) False) = []" by simp_all
    show ?thesis
      using fireRequest_gated_facts(1,3) [OF assms e, of m u d c] s
      by (simp add: breaker_fire_admitted [OF a])
  qed
  have restart: "elapsed ?cs w \<le> resetTimeout opts \<and> admits br b (clock w)
        \<and> snd (settle br b (clock w) False) = [EvOpen] \<Longrightarrow>
      getCircuitState ?key (snd (snd ?R)) = ?cs\<lparr>lastFailureTime := Some (clock w)\<rparr>"
  proof -
    assume h: "elapsed ?cs w \<le> resetTimeout opts \<and> admits br b (clock w)
        \<and> snd (settle br b (clock w) False) = [EvOpen]"
    then have e: "elapsed ?cs w \<le> resetTimeout opts" and a: "admits br b (clock w)"
      and s: "snd (settle br b (clock w) False) = [EvOpen]" by simp_all
    have same: "getCircuitState ?key (snd ?F) = ?cs"
      using fireRequest_gated_facts(3) [OF assms e, of m u d c]
      by (simp add: getCircuitState_def)
    have "getCircuitState ?key (snd (snd ?R)) = getCircuitState ?key (on_open opts (snd ?F))"
      using fireRequest_gated_facts(1) [OF assms e, of m u d c] s
      by (simp add: breaker_fire_admitted [OF a])
    also have "\<dots> = ?cs\<lparr>state := OPEN, lastFailureTime := Some (clock w)\<rparr>"
      using same fireRequest_gated_facts(4) [OF assms e, of m u d c]
      by (simp add: on_open_stored)
    also have "\<dots> = ?cs\<lparr>lastFailureTime := Some (clock w)\<rparr>"
      using assms(2) by (intro CircuitState.equality) simp_all
    finally show ?thesis .
  qed
  have late: "resetTimeout opts < elapsed ?cs w \<and> admits br b (clock w) \<Longrightarrow>
        ?F = attempt opts m u d c ?half (setCircuitState ?key ?half w)
      \<and> fst ?R = fst ?F
      \<and> (m \<in> {''get'', ''post'', ''put'', ''delete''} \<longrightarrow>
            sent (snd (snd ?R)) =
              sent w @ [\<lparr>http_method = m, url = u,
                          data = (if m = ''get'' \<or> m = ''delete'' then None else d),
                          config = c\<rparr>])"
  proof -
    assume h: "resetTimeout opts < elapsed ?cs w \<and> admits br b (clock w)"
    then have l: "resetTimeout opts < elapsed ?cs w" and a: "admits br b (clock w)"
      by simp_all
    note probe = fireRequest_probe [OF assms(2) l, of m u d c]
    have res: "fst ?R = fst ?F"
      by (simp add: breaker_fire_admitted [OF a])
    have snt: "sent (snd (snd ?R)) = sent (snd ?F)"
      by (simp add: breaker_fire_admitted [OF a] fold_on_event_sent)
    show ?thesis
      using probe res snt by (simp add: attempt_valid_sent)
  qed
  have stamp: "elapsed (fst (recordFailure opts cs0 w0)) w = clock w - clock w0"
    by (simp add: elapsed_def recordFailure_def Let_def)
  have stamp': "elapsed (getCircuitState ?key (on_open opts w0)) w = clock w - clock w0"
    by (simp add: elapsed_def on_open_stored)
  have api: "get opts br b u c = breaker_fire opts br b ''get'' u None c"
      "post opts br b u d c = breaker_fire opts br b ''post'' u d c"
      "put opts br b u d c = breaker_fire opts br b ''put'' u d c"
      "delete opts br b u c = breaker_fire opts br b ''delete'' u None c"
    by (simp_all add: get_def post_def put_def delete_def fun_eq_iff)
  from shut early silent restart late stamp stamp' api show ?thesis
    by blast
qed

theorem open_rejects_until_reset_timeout_witness:
  "(scenario (options_3_2_100 1) = 1 \<or> scenario (options_3_2_100 1) = 2)
   \<and> state (getCircuitState (the_stateKey (options_3_2_100 1))
        (zworld_at 50 (Some \<lparr>state = OPEN, failureCount = 4, successCount = 0, lastFailureTime = Some 0\<rparr>)
           [] answering)) = OPEN
   \<and> elapsed (getCircuitState (the_stateKey (options_3_2_100 1))
        (zworld_at 50 (Some \<lparr>state = OPEN, failureCount = 4, successCount = 0, lastFailureTime = Some 0\<rparr>)
           [] answering))
        (zworld_at 50 (Some \<lparr>state = OPEN, failureCount = 4, successCount = 0, lastFailureTime = Some 0\<rparr>)
           [] answering) \<le> resetTimeout (options_3_2_100 1)
   \<and> admits passive_breaker () 50 \<and> snd (settle passive_breaker () 50 False) = []
   \<and> fst (get (options_3_2_100 1) passive_breaker () ''/x'' None
        (zworld_at 50 (Some \<lparr>state = OPEN, failureCount = 4, successCount = 0, lastFailureTime = Some 0\<rparr>)
           [] answering)) = Inl CircuitOpen
   \<and> sent (snd (snd (get (options_3_2_100 1) passive_breaker () ''/x'' None
        (zworld_at 50 (Some \<lparr>state = OPEN, failureCount = 4, successCount = 0, lastFailureTime = Some 0\<rparr>)
           [] answering)))) = []
   \<and> getCircuitState (the_stateKey (options_3_2_100 1))
        (snd (snd (get (options_3_2_100 1) passive_breaker () ''/x'' None
        (zworld_at 50 (Some \<lparr>state = OPEN, failureCount = 4, successCount = 0, lastFailureTime = Some 0\<rparr>)
           [] answering))))
      = \<lparr>state = OPEN, failureCount = 4, successCount = 0, lastFailureTime = Some 0\<rparr>
   \<and> admits jumpy_breaker False 50 \<and> snd (settle jumpy_breaker False 50 False) = [EvOpen]
   \<and> getCircuitState (the_stateKey (options_3_2_100 1))
        (snd (snd (get (options_3_2_100 1) jumpy_breaker False ''/x'' None
        (zworld_at 50 (Some \<lparr>state = OPEN, failureCount = 4, successCount = 0, lastFailureTime = Some 0\<rparr>)
           [] answering))))
      = \<lparr>state = OPEN, failureCount = 4, successCount = 0, lastFailureTime = Some 50\<rparr>
   \<and> \<not> admits \<lparr>admits = (\<lambda>b t. False), settle = (\<lambda>b t ok. (b, []))\<rparr> () 50
   \<and> get (options_3_2_100 1) \<lparr>admits = (\<lambda>b t. False), settle = (\<lambda>b t ok. (b, []))\<rparr> ()
        ''/x'' None
        (zworld_at 50 (Some \<lparr>state = OPEN, failureCount = 4, successCount = 0, lastFailureTime = Some 0\<rparr>)
           [] answering)
      = (Inl BreakerRejected, (),
         zworld_at 50 (Some \<lparr>state = OPEN, failureCount = 4, successCount = 0, lastFailureTime = Some 0\<rparr>)
           [] answering)
   \<and> state (getCircuitState (the_stateKey (options_3_2_100 1))
        (zworld_at 150 (Some \<lparr>state = OPEN, failureCount = 4, successCount = 0, lastFailureTime = Some 0\<rparr>)
           [] answering)) = OPEN
   \<and> resetTimeout (options_3_2_100 1)
        < elapsed (getCircuitState (the_stateKey (options_3_2_100 1))
        (zworld_at 150 (Some \<lparr>state = OPEN, failureCount = 4, successCount = 0, lastFailureTime = Some 0\<rparr>)
           [] answering))
        (zworld_at 150 (Some \<lparr>state = OPEN, failureCount = 4, successCount = 0, lastFailureTime = Some 0\<rparr>)
           [] answering)
   \<and> admits passive_breaker () 150
   \<and> ''get'' \<in> {''get'', ''post'', ''put'', ''delete''}
   \<and> fst (get (options_3_2_100 1) passive_breaker () ''/x'' None
        (zworld_at 150 (Some \<lparr>state = OPEN, failureCount = 4, successCount = 0, lastFailureTime = Some 0\<rparr>)
           [] answering)) = Inr ''ok''
   \<and> sent (snd (snd (get (options_3_2_100 1) passive_breaker () ''/x'' None
        (zworld_at 150 (Some \<lparr>state = OPEN, failureCount = 4, successCount = 0, lastFailureTime = Some 0\<rparr>)
           [] answering))))
      = [\<lparr>http_method = ''get'', url = ''/x'', data = None, config = None\<rparr>]
   \<and> getCircuitState (the_stateKey (options_3_2_100 1))
        (snd (snd (get (options_3_2_100 1) passive_breaker () ''/x'' None
        (zworld_at 150 (Some \<lparr>state = OPEN, failureCount = 4, successCount = 0, lastFailureTime = Some 0\<rparr>)
           [] answering))))
      = \<lparr>state = HALF_OPEN, failureCount = 0, successCount = 1, lastFailureTime = Some 0\<rparr>"
proof -
  let ?opts = "options_3_2_100 1"
  let ?cs = "\<lparr>state = OPEN, failureCount = 4, successCount = 0, lastFailureTime = Some 0\<rparr>"
  let ?early = "zworld_at 50 (Some ?cs) [] answering"
  let ?late = "zworld_at 150 (Some ?cs) [] answering"
  let ?shut = "\<lparr>admits = (\<lambda>b t. False), settle = (\<lambda>b t ok. (b, []))\<rparr> :: unit breaker"
  note defs = get_def breaker_fire_def fire_def jumpy_breaker_def passive_breaker_def
        fireRequest_def attempt_def request_def axios_call_def recordSuccess_def on_open_def
        Let_def options_3_2_100_def zworld_at_def getCircuitState_def setCircuitState_def
        the_stateKey_def elapsed_def answering_def
  note quiet = open_rejects_until_reset_timeout
      [where opts = ?opts and w = ?early and br = passive_breaker and b = "()"
         and m = "''get''" and u = "''/x''" and d = None and c = None
         and ?cs0.0 = initial_CircuitState and ?w0.0 = ?early]
  note restamp = open_rejects_until_reset_timeout
      [where opts = ?opts and w = ?early and br = jumpy_breaker and b = False
         and m = "''get''" and u = "''/x''" and d = None and c = None
         and ?cs0.0 = initial_CircuitState and ?w0.0 = ?early]
  note shut = open_rejects_until_reset_timeout
      [where opts = ?opts and w = ?early and br = ?shut and b = "()"
         and m = "''get''" and u = "''/x''" and d = None and c = None
         and ?cs0.0 = initial_CircuitState and ?w0.0 = ?early]
  note probe = open_rejects_until_reset_timeout
      [where opts = ?opts and w = ?late and br = passive_breaker and b = "()"
         and m = "''get''" and u = "''/x''" and d = None and c = None
         and ?cs0.0 = initial_CircuitState and ?w0.0 = ?early]
  from quiet restamp shut probe show ?thesis
    by (simp add: defs fun_eq_iff)
qed

text \<open>
  C9: with a scenario other than 1 and 2, a call made while the stored phase is OPEN and
  the reset timeout has not passed is neither rejected nor queued: it runs the attempt
  with the state as read, the waiting list is unchanged, with one of the four methods the
  request is sent to the transport, and the result and the requests sent are those of the
  same call against a store whose phase is CLOSED.
\<close>

theorem unknown_scenario_falls_through:
  assumes "scenario opts \<noteq> 1" and "scenario opts \<noteq> 2"
      and "state (getCircuitState (the_stateKey opts) w) = OPEN"
      and "elapsed (getCircuitState (the_stateKey opts) w) w \<le> resetTimeout opts"
  shows "fireRequest opts m u d c w = attempt opts m u d c (getCircuitState (the_stateKey opts) w) w
       \<and> fst (fireRequest opts m u d c w) \<noteq> Inl CircuitOpen
       \<and> fst (fireRequest opts m u d c w) \<noteq> Inl CircuitOpenQueued
       \<and> waiting (snd (fireRequest opts m u d c w)) = waiting w
       \<and> (m \<in> {''get'', ''post'', ''put'', ''delete''} \<longrightarrow>
             sent (snd (fireRequest opts m u d c w)) =
               sent w @ [\<lparr>http_method = m, url = u,
                           data = (if m = ''get'' \<or> m = ''delete'' then None else d),
                           config = c\<rparr>])
       \<and> fst (fireRequest opts m u d c w) =
           fst (fireRequest opts m u d c
                  (setCircuitState (the_stateKey opts)
                     ((getCircuitState (the_stateKey opts) w)\<lparr>state := CLOSED\<rparr>) w))
       \<and> sent (snd (fireRequest opts m u d c w)) =
           sent (snd (fireRequest opts m u d c
                  (setCircuitState (the_stateKey opts)
                     ((getCircuitState (the_stateKey opts) w)\<lparr>state := CLOSED\<rparr>) w)))"
proof -
  let ?key = "the_stateKey opts"
  let ?cs = "getCircuitState ?key w"
  let ?closed = "?cs\<lparr>state := CLOSED\<rparr>"
  let ?w' = "setCircuitState ?key ?closed w"
  have through: "fireRequest opts m u d c w = attempt opts m u d c ?cs w"
    using assms by (simp add: fireRequest_def Let_def)
  have read: "getCircuitState ?key ?w' = ?closed"
    by (simp add: getCircuitState_def setCircuitState_def)
  have closed: "fireRequest opts m u d c ?w' = attempt opts m u d c ?closed ?w'"
    by (simp add: fireRequest_def Let_def read)
  have not_half: "state ?cs \<noteq> HALF_OPEN"
    using assms(3) by simp
  have valid: "m \<in> {''get'', ''post'', ''put'', ''delete''} \<Longrightarrow>
      sent (snd (attempt opts m u d c ?cs w)) =
        sent w @ [\<lparr>http_method = m, url = u,
                    data = (if m = ''get'' \<or> m = ''delete'' then None else d), config = c\<rparr>]"
    by (simp add: attempt_sent request_valid axios_call_fields)
  show ?thesis
    unfolding through closed
    using valid
    by (simp add: attempt_result attempt_sent attempt_waiting [OF not_half]
          request_not_gated request_setCircuitState)
qed

theorem unknown_scenario_falls_through_witness:
  "scenario (options_3_2_100 3) \<noteq> 1 \<and> scenario (options_3_2_100 3) \<noteq> 2
   \<and> state (getCircuitState (the_stateKey (options_3_2_100 3))
        (zworld_at 50 (Some \<lparr>state = OPEN, failureCount = 4, successCount = 0, lastFailureTime = Some 0\<rparr>)
           [] answering)) = OPEN
   \<and> elapsed (getCircuitState (the_stateKey (options_3_2_100 3))
        (zworld_at 50 (Some \<lparr>state = OPEN, failureCount = 4, successCount = 0, lastFailureTime = Some 0\<rparr>)
           [] answering))
        (zworld_at 50 (Some \<lparr>state = OPEN, failureCount = 4, successCount = 0, lastFailureTime = Some 0\<rparr>)
           [] answering) \<le> resetTimeout (options_3_2_100 3)
   \<and> ''post'' \<in> {''get'', ''post'', ''put'', ''delete''}
   \<and> fst (fireRequest (options_3_2_100 3) ''post'' ''/orders'' (Some ''1'') None
        (zworld_at 50 (Some \<lparr>state = OPEN, failureCount = 4, successCount = 0, lastFailureTime = Some 0\<rparr>)
           [] answering)) = Inr ''ok''
   \<and> waiting (snd (fireRequest (options_3_2_100 3) ''post'' ''/orders'' (Some ''1'') None
        (zworld_at 50 (Some \<lparr>state = OPEN, failureCount = 4, successCount = 0, lastFailureTime = Some 0\<rparr>)
           [] answering))) = []
   \<and> sent (snd (fireRequest (options_3_2_100 3) ''post'' ''/orders'' (Some ''1'') None
        (zworld_at 50 (Some \<lparr>state = OPEN, failureCount = 4, successCount = 0, lastFailureTime = Some 0\<rparr>)
           [] answering)))
      = [\<lparr>http_method = ''post'', url = ''/orders'', data = Some ''1'', config = None\<rparr>]"
  using unknown_scenario_falls_through
          [where opts = "options_3_2_100 3"
             and w = "zworld_at 50 (Some \<lparr>state = OPEN, failureCount = 4, successCount = 0, lastFailureTime = Some 0\<rparr>) [] answering"
             and m = "''post''" and u = "''/orders''" and d = "Some ''1''" and c = None]
  by (simp add: options_3_2_100_def zworld_at_def getCircuitState_def the_stateKey_def elapsed_def
        fireRequest_def attempt_def request_def axios_call_def recordSuccess_def Let_def
        setCircuitState_def answering_def)

subsection \<open>The method strings of the public methods\<close>

text \<open>
  C10: \<open>request\<close> fails with the invalid-method error exactly for a method string
  other than the four, and \<open>get\<close>, \<open>post\<close>, \<open>put\<close> and \<open>delete\<close> pass their own
  method string through the breaker to \<open>fireRequest\<close> and \<open>request\<close>, so none of them
  ever fails with that error, whatever the breaker, the options and the world.
\<close>

theorem public_methods_never_invalid:
  "fst (get opts br b u c w) \<noteq> Inl InvalidMethod
   \<and> fst (post opts br b u d c w) \<noteq> Inl InvalidMethod
   \<and> fst (put opts br b u d c w) \<noteq> Inl InvalidMethod
   \<and> fst (delete opts br b u c w) \<noteq> Inl InvalidMethod
   \<and> (fst (request m u d c w) = Inl InvalidMethod)
       = (m \<notin> {''get'', ''post'', ''put'', ''delete''})"
proof -
  have "(fst (request m u d c w) = Inl InvalidMethod)
       = (m \<notin> {''get'', ''post'', ''put'', ''delete''})"
    by (cases "m \<in> {''get'', ''post'', ''put'', ''delete''}")
       (simp_all only: request_valid request_invalid axios_call_fields fst_conv simp_thms)
  then show ?thesis
    by (simp add: get_def post_def put_def delete_def breaker_fire_not_invalid)
qed

subsection \<open>Replay by the worker\<close>

text \<open>
  C8: claimed is that a replay re-enters the dispatch path, so that its outcome feeds
  back into the failure accounting. The worker of this variant calls \<open>request\<close> itself:
  after the breaker has closed, a replayed job that the endpoint refuses leaves the stored
  circuit state as it was (\<open>failureCount = 0\<close>), where the same request made through
  \<open>fireRequest\<close> records the failure (\<open>failureCount = 1\<close>). The worker of the other variant goes through the
  breaker: there the same refused job reaches \<open>settle\<close>, which here opens the breaker, and
  the handler writes \<open>OPEN\<close> under the shared key.
\<close>

theorem worker_failure_not_recorded:
  "fst (worker (options_3_2_100 2)
          \<lparr>http_method = ''post'', url = ''/orders'', data = Some ''1'', config = None\<rparr>
          (zworld_at 400
             (Some \<lparr>state = CLOSED, failureCount = 0, successCount = 0, lastFailureTime = Some 100\<rparr>)
             [] refusing)) = Inl (Downstream ''ECONNREFUSED'')
   \<and> getCircuitState (the_stateKey (options_3_2_100 2))
        (snd (worker (options_3_2_100 2)
          \<lparr>http_method = ''post'', url = ''/orders'', data = Some ''1'', config = None\<rparr>
          (zworld_at 400
             (Some \<lparr>state = CLOSED, failureCount = 0, successCount = 0, lastFailureTime = Some 100\<rparr>)
             [] refusing)))
      = \<lparr>state = CLOSED, failureCount = 0, successCount = 0, lastFailureTime = Some 100\<rparr>
   \<and> getCircuitState (the_stateKey (options_3_2_100 2))
        (snd (fireRequest (options_3_2_100 2) ''post'' ''/orders'' (Some ''1'') None
          (zworld_at 400
             (Some \<lparr>state = CLOSED, failureCount = 0, successCount = 0, lastFailureTime = Some 100\<rparr>)
             [] refusing)))
      = \<lparr>state = CLOSED, failureCount = 1, successCount = 0, lastFailureTime = Some 400\<rparr>
   \<and> fst (snd (worker_g
          (new_Zyphr_g \<lparr>resetTimeout_g = 100, scenario_g = QUEUE_REQUEST, stateKey_g = None, globalTtl_g = None\<rparr>)
          jumpy_breaker False
          \<lparr>http_method = ''post'', url = ''/orders'', data = Some ''1'', config = None\<rparr>
          (gate_world_at 400 (Some (''CLOSED'', 30300)) True refusing))) = True
   \<and> redis (snd (snd (worker_g
          (new_Zyphr_g \<lparr>resetTimeout_g = 100, scenario_g = QUEUE_REQUEST, stateKey_g = None, globalTtl_g = None\<rparr>)
          jumpy_breaker False
          \<lparr>http_method = ''post'', url = ''/orders'', data = Some ''1'', config = None\<rparr>
          (gate_world_at 400 (Some (''CLOSED'', 30300)) True refusing)))) ''zyphr:global:circuit''
      = Some (''OPEN'', 30400)"
  by (simp add: worker_def fireRequest_def attempt_def request_def axios_call_def
        recordFailure_def Let_def options_3_2_100_def zworld_at_def getCircuitState_def
        setCircuitState_def the_stateKey_def refusing_def initial_CircuitState_def
        worker_g_def breaker_fire_g_def fire_def jumpy_breaker_def executor_def
        new_Zyphr_g_def gate_world_at_def on_open_g_def redis_set_ex_def)

section \<open>Properties of the variant of \<open>src/unnamed/part_000\<close>\<close>

subsection \<open>Auxiliary facts\<close>

lemma fire_redis:
  assumes "fire br b now (executor m u d c) w = (r, b', evs, w')"
  shows "redis w' = redis w"
  using assms
  by (auto simp add: fire_def executor_def axios_call_def split: if_splits prod.splits)

lemma on_event_g_write:
  "reachable w \<Longrightarrow>
     redis (on_event_g z ev w) =
       (redis w)(priv_stateKey z \<mapsto>
          (case ev of EvOpen \<Rightarrow> ''OPEN'' | EvHalfOpen \<Rightarrow> ''HALF_OPEN'' | EvClose \<Rightarrow> ''CLOSED'',
           clock w + priv_ttl z * 1000))"
  by (cases ev)
     (simp_all add: on_open_g_def on_halfOpen_g_def on_close_g_def redis_set_ex_def
        processQueue_drains)

lemma on_event_g_down: "\<not> reachable w \<Longrightarrow> on_event_g z ev w = w"
  by (cases ev) (simp_all add: on_open_g_def on_halfOpen_g_def on_close_g_def redis_set_ex_def)

subsection \<open>Calls while the gate is open\<close>



subsection \<open>Reading the gate\<close>

text \<open>
  C2, as claimed, fails: when the read of the shared key fails, \<open>isGloballyOpen\<close> does
  not answer false; the failure leaves \<open>isGloballyOpen\<close>, and the public call fails with
  it without anything being sent.
\<close>

theorem store_failure_propagates_counterexample:
  "isGloballyOpen (new_Zyphr_g \<lparr>resetTimeout_g = 100, scenario_g = RETURN_ERROR, stateKey_g = None, globalTtl_g = None\<rparr>)
      (gate_world_at 5000 None False answering) = Inl StoreFailure
   \<and> fst (get_g (new_Zyphr_g \<lparr>resetTimeout_g = 100, scenario_g = RETURN_ERROR, stateKey_g = None, globalTtl_g = None\<rparr>)
        passive_breaker () ''/x'' None (gate_world_at 5000 None False answering)) = Inl StoreFailure
   \<and> sent (snd (snd (get_g (new_Zyphr_g \<lparr>resetTimeout_g = 100, scenario_g = RETURN_ERROR, stateKey_g = None, globalTtl_g = None\<rparr>)
        passive_breaker () ''/x'' None (gate_world_at 5000 None False answering)))) = []"
  by (simp add: new_Zyphr_g_def gate_world_at_def isGloballyOpen_def redis_get_def
        handleRequest_def get_g_def)

text \<open>
  C2, amended: \<open>isGloballyOpen\<close> answers true if and only if the store is reachable and
  the key holds \<open>OPEN\<close> and has not expired; it answers false when the key is absent or
  has expired, so that an \<open>OPEN\<close> written by the handler at an instant is read as open
  until \<open>_ttl\<close> seconds later and no longer; a read failure is not caught: it leaves
  \<open>isGloballyOpen\<close> and \<open>handleRequest\<close> as the error of the call, and the breaker and
  the world are untouched.
\<close>

theorem gate_read:
  "(isGloballyOpen z w = Inr True)
     = (reachable w \<and> (\<exists>expiry. redis w (priv_stateKey z) = Some (''OPEN'', expiry) \<and> clock w < expiry))
   \<and> (reachable w \<longrightarrow>
         isGloballyOpen z w =
           Inr (\<exists>expiry. redis w (priv_stateKey z) = Some (''OPEN'', expiry) \<and> clock w < expiry))
   \<and> (reachable w \<and> redis w (priv_stateKey z) = None \<longrightarrow> isGloballyOpen z w = Inr False)
   \<and> (reachable w \<and> redis w (priv_stateKey z) = Some (v, expiry) \<and> expiry \<le> clock w \<longrightarrow>
         isGloballyOpen z w = Inr False)
   \<and> (reachable w \<longrightarrow>
         isGloballyOpen z ((on_open_g z w)\<lparr>clock := t\<rparr>) = Inr (t < clock w + priv_ttl z * 1000))
   \<and> (\<not> reachable w \<longrightarrow>
         isGloballyOpen z w = Inl StoreFailure
       \<and> handleRequest z br b m u d c w = (Inl StoreFailure, b, w))"
  by (auto simp add: isGloballyOpen_def redis_get_def handleRequest_def on_open_g_def
        redis_set_ex_def split: option.splits prod.splits)

theorem gate_read_witness:
  "reachable (gate_world_at 5000 None True answering)
   \<and> redis (gate_world_at 5000 None True answering)
        (priv_stateKey (new_Zyphr_g \<lparr>resetTimeout_g = 100, scenario_g = RETURN_ERROR, stateKey_g = None, globalTtl_g = None\<rparr>)) = None
   \<and> isGloballyOpen (new_Zyphr_g \<lparr>resetTimeout_g = 100, scenario_g = RETURN_ERROR, stateKey_g = None, globalTtl_g = None\<rparr>)
        (gate_world_at 5000 None True answering) = Inr False
   \<and> isGloballyOpen (new_Zyphr_g \<lparr>resetTimeout_g = 100, scenario_g = RETURN_ERROR, stateKey_g = None, globalTtl_g = None\<rparr>)
        ((on_open_g (new_Zyphr_g \<lparr>resetTimeout_g = 100, scenario_g = RETURN_ERROR, stateKey_g = None, globalTtl_g = None\<rparr>)
            (gate_world_at 5000 None True answering))\<lparr>clock := 34999\<rparr>) = Inr True
   \<and> isGloballyOpen (new_Zyphr_g \<lparr>resetTimeout_g = 100, scenario_g = RETURN_ERROR, stateKey_g = None, globalTtl_g = None\<rparr>)
        ((on_open_g (new_Zyphr_g \<lparr>resetTimeout_g = 100, scenario_g = RETURN_ERROR, stateKey_g = None, globalTtl_g = None\<rparr>)
            (gate_world_at 5000 None True answering))\<lparr>clock := 35000\<rparr>) = Inr False
   \<and> reachable (gate_world_at 40000 (Some (''OPEN'', 35000)) True answering)
   \<and> redis (gate_world_at 40000 (Some (''OPEN'', 35000)) True answering)
        (priv_stateKey (new_Zyphr_g \<lparr>resetTimeout_g = 100, scenario_g = RETURN_ERROR, stateKey_g = None, globalTtl_g = None\<rparr>))
        = Some (''OPEN'', 35000)
   \<and> (35000::int) \<le> clock (gate_world_at 40000 (Some (''OPEN'', 35000)) True answering)
   \<and> isGloballyOpen (new_Zyphr_g \<lparr>resetTimeout_g = 100, scenario_g = RETURN_ERROR, stateKey_g = None, globalTtl_g = None\<rparr>)
        (gate_world_at 40000 (Some (''OPEN'', 35000)) True answering) = Inr False
   \<and> \<not> reachable (gate_world_at 5000 (Some (''OPEN'', 35000)) False answering)
   \<and> isGloballyOpen (new_Zyphr_g \<lparr>resetTimeout_g = 100, scenario_g = RETURN_ERROR, stateKey_g = None, globalTtl_g = None\<rparr>)
        (gate_world_at 5000 (Some (''OPEN'', 35000)) False answering) = Inl StoreFailure"
  using gate_read
          [where z = "new_Zyphr_g \<lparr>resetTimeout_g = 100, scenario_g = RETURN_ERROR, stateKey_g = None, globalTtl_g = None\<rparr>"
             and w = "gate_world_at 5000 None True answering" and t = 34999
             and v = "''OPEN''" and expiry = 35000
             and br = passive_breaker and b = "()" and m = "''get''" and u = "''/x''"
             and d = None and c = None]
        gate_read
          [where z = "new_Zyphr_g \<lparr>resetTimeout_g = 100, scenario_g = RETURN_ERROR, stateKey_g = None, globalTtl_g = None\<rparr>"
             and w = "gate_world_at 40000 (Some (''OPEN'', 35000)) True answering" and t = 35000
             and v = "''OPEN''" and expiry = 35000
             and br = passive_breaker and b = "()" and m = "''get''" and u = "''/x''"
             and d = None and c = None]
        gate_read
          [where z = "new_Zyphr_g \<lparr>resetTimeout_g = 100, scenario_g = RETURN_ERROR, stateKey_g = None, globalTtl_g = None\<rparr>"
             and w = "gate_world_at 5000 (Some (''OPEN'', 35000)) False answering" and t = 35000
             and v = "''OPEN''" and expiry = 35000
             and br = passive_breaker and b = "()" and m = "''get''" and u = "''/x''"
             and d = None and c = None]
  by (simp add: new_Zyphr_g_def gate_world_at_def isGloballyOpen_def redis_get_def
        on_open_g_def redis_set_ex_def)

subsection \<open>Writing the gate\<close>

text \<open>
  C7, as claimed, fails on the variant of \<open>src/src/zyphr.ts\<close>: a failed call in phase
  CLOSED, below the threshold, leaves the phase CLOSED and yet writes the key, which was
  absent before.
\<close>

theorem state_key_written_without_transition_counterexample:
  "state (getCircuitState (the_stateKey (options_3_2_100 1)) (zworld_at 0 None [] refusing)) = CLOSED
   \<and> redis (zworld_at 0 None [] refusing) (the_stateKey (options_3_2_100 1)) = None
   \<and> redis (snd (fireRequest (options_3_2_100 1) ''get'' ''/x'' None None
               (zworld_at 0 None [] refusing))) (the_stateKey (options_3_2_100 1))
      = Some \<lparr>state = CLOSED, failureCount = 1, successCount = 0, lastFailureTime = Some 0\<rparr>"
  by (simp add: fireRequest_def attempt_def request_def axios_call_def
        recordFailure_def Let_def options_3_2_100_def zworld_at_def getCircuitState_def
        setCircuitState_def the_stateKey_def refusing_def initial_CircuitState_def)

text \<open>
  C7, amended: in this variant \<open>handleRequest\<close> itself never writes the shared key: a
  call that is gated, or whose read of the gate fails, or on which the breaker emits no
  event, leaves the store as it was, and otherwise the store is what the handlers of the
  emitted events make of it. While the store is reachable, each handler stores the name
  of the new phase under the key with an expiry \<open>_ttl\<close> seconds after the write; while it
  is not, nothing is written. In the variant of \<open>src/src/zyphr.ts\<close>, \<open>recordSuccess\<close> and
  \<open>recordFailure\<close> write the state they return under the key at every attempted call.
\<close>

theorem gate_key_written_by_handlers_only:
  assumes "fire br b (clock w) (executor m u d c) w = (r, b', evs, w')"
  shows "(isGloballyOpen z w \<noteq> Inr False \<longrightarrow>
            redis (snd (snd (handleRequest z br b m u d c w))) = redis w)
       \<and> (isGloballyOpen z w = Inr False \<longrightarrow>
            redis (snd (snd (handleRequest z br b m u d c w))) = redis (fold (on_event_g z) evs w')
          \<and> redis w' = redis w)
       \<and> (evs = [] \<longrightarrow> redis (snd (snd (handleRequest z br b m u d c w))) = redis w)
       \<and> (reachable w0 \<longrightarrow>
            redis (on_event_g z EvOpen w0) =
              (redis w0)(priv_stateKey z \<mapsto> (''OPEN'', clock w0 + priv_ttl z * 1000))
          \<and> redis (on_event_g z EvHalfOpen w0) =
              (redis w0)(priv_stateKey z \<mapsto> (''HALF_OPEN'', clock w0 + priv_ttl z * 1000))
          \<and> redis (on_event_g z EvClose w0) =
              (redis w0)(priv_stateKey z \<mapsto> (''CLOSED'', clock w0 + priv_ttl z * 1000)))
       \<and> (\<not> reachable w0 \<longrightarrow> redis (on_event_g z ev w0) = redis w0)
       \<and> redis (snd (recordSuccess opts cs zw)) (the_stateKey opts)
           = Some (fst (recordSuccess opts cs zw))
       \<and> redis (snd (recordFailure opts cs zw)) (the_stateKey opts)
           = Some (fst (recordFailure opts cs zw))"
proof -
  have same: "redis w' = redis w"
    using assms by (rule fire_redis)
  have gated: "isGloballyOpen z w \<noteq> Inr False \<Longrightarrow>
      redis (snd (snd (handleRequest z br b m u d c w))) = redis w"
    by (cases "isGloballyOpen z w")
       (auto simp add: handleRequest_def queue_add_def)
  have free: "isGloballyOpen z w = Inr False \<Longrightarrow>
      redis (snd (snd (handleRequest z br b m u d c w))) = redis (fold (on_event_g z) evs w')"
    using assms by (simp add: handleRequest_def breaker_fire_g_def)
  have quiet: "evs = [] \<Longrightarrow> redis (snd (snd (handleRequest z br b m u d c w))) = redis w"
    using gated free same by (cases "isGloballyOpen z w = Inr False") simp_all
  have writes: "reachable w0 \<Longrightarrow>
        redis (on_event_g z EvOpen w0) =
          (redis w0)(priv_stateKey z \<mapsto> (''OPEN'', clock w0 + priv_ttl z * 1000))
      \<and> redis (on_event_g z EvHalfOpen w0) =
          (redis w0)(priv_stateKey z \<mapsto> (''HALF_OPEN'', clock w0 + priv_ttl z * 1000))
      \<and> redis (on_event_g z EvClose w0) =
          (redis w0)(priv_stateKey z \<mapsto> (''CLOSED'', clock w0 + priv_ttl z * 1000))"
    by (simp only: on_event_g_write breaker_event.case simp_thms)
  have down: "\<not> reachable w0 \<Longrightarrow> redis (on_event_g z ev w0) = redis w0"
    using on_event_g_down [of w0 z ev] by simp
  note each = recordSuccess_written [of opts cs zw] recordFailure_written [of opts cs zw]
  from same gated free quiet writes down each show ?thesis by blast
qed

theorem gate_key_written_by_handlers_only_witness:
  "fire jumpy_breaker False (clock (gate_world_at 5000 None True refusing))
      (executor ''get'' ''/x'' None None) (gate_world_at 5000 None True refusing)
     = (Inl (Downstream ''ECONNREFUSED''), True, [EvOpen],
        (gate_world_at 5000 None True refusing)
          \<lparr>sent := [\<lparr>http_method = ''get'', url = ''/x'', data = None, config = None\<rparr>]\<rparr>)
   \<and> isGloballyOpen (new_Zyphr_g \<lparr>resetTimeout_g = 100, scenario_g = RETURN_ERROR, stateKey_g = None, globalTtl_g = None\<rparr>)
        (gate_world_at 5000 None True refusing) = Inr False
   \<and> reachable (gate_world_at 5000 None True refusing)
   \<and> redis (snd (snd (handleRequest
        (new_Zyphr_g \<lparr>resetTimeout_g = 100, scenario_g = RETURN_ERROR, stateKey_g = None, globalTtl_g = None\<rparr>)
        jumpy_breaker False ''get'' ''/x'' None None (gate_world_at 5000 None True refusing))))
        ''zyphr:global:circuit'' = Some (''OPEN'', 35000)
   \<and> fire jumpy_breaker True (clock (gate_world_at 5000 None True refusing))
      (executor ''get'' ''/x'' None None) (gate_world_at 5000 None True refusing)
     = (Inl (Downstream ''ECONNREFUSED''), True, [],
        (gate_world_at 5000 None True refusing)
          \<lparr>sent := [\<lparr>http_method = ''get'', url = ''/x'', data = None, config = None\<rparr>]\<rparr>)
   \<and> redis (snd (snd (handleRequest
        (new_Zyphr_g \<lparr>resetTimeout_g = 100, scenario_g = RETURN_ERROR, stateKey_g = None, globalTtl_g = None\<rparr>)
        jumpy_breaker True ''get'' ''/x'' None None (gate_world_at 5000 None True refusing))))
        ''zyphr:global:circuit'' = None
   \<and> isGloballyOpen (new_Zyphr_g \<lparr>resetTimeout_g = 100, scenario_g = RETURN_ERROR, stateKey_g = None, globalTtl_g = None\<rparr>)
        (gate_world_at 5000 (Some (''OPEN'', 30000)) True refusing) \<noteq> Inr False
   \<and> redis (snd (snd (handleRequest
        (new_Zyphr_g \<lparr>resetTimeout_g = 100, scenario_g = RETURN_ERROR, stateKey_g = None, globalTtl_g = None\<rparr>)
        jumpy_breaker False ''get'' ''/x'' None None
        (gate_world_at 5000 (Some (''OPEN'', 30000)) True refusing))))
        ''zyphr:global:circuit'' = Some (''OPEN'', 30000)
   \<and> \<not> reachable (gate_world_at 5000 None False refusing)
   \<and> redis (on_event_g
        (new_Zyphr_g \<lparr>resetTimeout_g = 100, scenario_g = RETURN_ERROR, stateKey_g = None, globalTtl_g = None\<rparr>)
        EvOpen (gate_world_at 5000 None False refusing)) ''zyphr:global:circuit'' = None"
proof -
  let ?z = "new_Zyphr_g \<lparr>resetTimeout_g = 100, scenario_g = RETURN_ERROR, stateKey_g = None, globalTtl_g = None\<rparr>"
  let ?w = "gate_world_at 5000 None True refusing"
  let ?w' = "?w\<lparr>sent := [\<lparr>http_method = ''get'', url = ''/x'', data = None, config = None\<rparr>]\<rparr>"
  let ?g = "gate_world_at 5000 (Some (''OPEN'', 30000)) True refusing"
  let ?g' = "?g\<lparr>sent := [\<lparr>http_method = ''get'', url = ''/x'', data = None, config = None\<rparr>]\<rparr>"
  let ?down = "gate_world_at 5000 None False refusing"
  have f1: "fire jumpy_breaker False (clock ?w) (executor ''get'' ''/x'' None None) ?w
      = (Inl (Downstream ''ECONNREFUSED''), True, [EvOpen], ?w')"
    by (simp add: fire_def jumpy_breaker_def executor_def axios_call_def gate_world_at_def
          refusing_def)
  have f2: "fire jumpy_breaker True (clock ?w) (executor ''get'' ''/x'' None None) ?w
      = (Inl (Downstream ''ECONNREFUSED''), True, [], ?w')"
    by (simp add: fire_def jumpy_breaker_def executor_def axios_call_def gate_world_at_def
          refusing_def)
  have f3: "fire jumpy_breaker False (clock ?g) (executor ''get'' ''/x'' None None) ?g
      = (Inl (Downstream ''ECONNREFUSED''), True, [EvOpen], ?g')"
    by (simp add: fire_def jumpy_breaker_def executor_def axios_call_def gate_world_at_def
          refusing_def)
  have g: "isGloballyOpen ?z ?w = Inr False"
    by (simp add: isGloballyOpen_def redis_get_def gate_world_at_def new_Zyphr_g_def)
  have gated: "isGloballyOpen ?z ?g \<noteq> Inr False"
    by (simp add: isGloballyOpen_def redis_get_def gate_world_at_def new_Zyphr_g_def)
  have up: "reachable ?w" "reachable ?w'" "\<not> reachable ?down"
    by (simp_all add: gate_world_at_def)
  have key: "priv_stateKey ?z = ''zyphr:global:circuit''" "priv_ttl ?z = 30"
    by (simp_all add: new_Zyphr_g_def)
  have r1: "redis (snd (snd (handleRequest ?z jumpy_breaker False ''get'' ''/x'' None None ?w)))
              ''zyphr:global:circuit'' = Some (''OPEN'', 35000)"
    using gate_key_written_by_handlers_only [OF f1, where z = ?z and ?w0.0 = ?w' and ev = EvOpen]
          g up key
    by (simp add: gate_world_at_def)
  have r2: "redis (snd (snd (handleRequest ?z jumpy_breaker True ''get'' ''/x'' None None ?w)))
              ''zyphr:global:circuit'' = None"
    using gate_key_written_by_handlers_only [OF f2, where z = ?z and ?w0.0 = ?w' and ev = EvOpen]
    by (simp add: gate_world_at_def)
  have r3: "redis (snd (snd (handleRequest ?z jumpy_breaker False ''get'' ''/x'' None None ?g)))
              ''zyphr:global:circuit'' = Some (''OPEN'', 30000)"
    using gate_key_written_by_handlers_only [OF f3, where z = ?z and ?w0.0 = ?down and ev = EvOpen]
          gated
    by (simp add: gate_world_at_def)
  have r4: "redis (on_event_g ?z EvOpen ?down) ''zyphr:global:circuit'' = None"
    using gate_key_written_by_handlers_only [OF f3, where z = ?z and ?w0.0 = ?down and ev = EvOpen]
          up(3)
    by (simp add: gate_world_at_def)
  from f1 f2 g gated up(1) up(3) r1 r2 r3 r4 show ?thesis by simp
qed

end
